theory Spec2Isabelle
  imports Main
begin

section \<open>The authentication provider of \<^verbatim>\<open>frontend/src/contexts/AuthContext.jsx\<close>\<close>

text \<open>
  The provider keeps one React state \<^verbatim>\<open>user\<close>, one slot of \<^verbatim>\<open>localStorage\<close> and talks to
  the backend with \<^verbatim>\<open>fetch\<close>. The model threads a record of the state through every
  operation. Each effect the code performs (a call of \<^verbatim>\<open>fetch\<close>, \<^verbatim>\<open>localStorage.setItem\<close>,
  \<^verbatim>\<open>localStorage.removeItem\<close>, \<^verbatim>\<open>setUser\<close>, \<^verbatim>\<open>navigate\<close>, \<^verbatim>\<open>console.error\<close>) is appended to a
  trace in program order, so that statements about ordering and about the absence of an
  effect can be made. A \<^verbatim>\<open>throw\<close> and a rejected promise are the \<open>Inl\<close> branch of a sum.

  What the environment does is a parameter: the backend is a function from the request to
  the outcome of \<^verbatim>\<open>fetch\<close>, and the body of a response is the outcome of \<^verbatim>\<open>res.json()\<close>.
  \<^verbatim>\<open>fetch\<close> always settles; the calls of \<^verbatim>\<open>localStorage\<close>, \<^verbatim>\<open>navigate\<close> and \<^verbatim>\<open>console.error\<close>
  do not throw, except that \<^verbatim>\<open>setItem\<close> converts its value to a string and that conversion
  can throw.

  Every function of the source is modelled twice. First as one function from its call to
  the settlement of its promise (\<open>fetchUserData\<close>, \<open>login\<close>, \<open>register\<close>, the effect on
  mount): what one call does when nothing else runs meanwhile. Then in pieces, cut at every
  \<^verbatim>\<open>await\<close>, as the steps of a machine whose schedule is free: another call, or the
  continuation of another suspended call, may run between two pieces.
\<close>

subsection \<open>JavaScript values\<close>

text \<open>
  The values that \<^verbatim>\<open>JSON.parse\<close> yields. A number stands for its canonical rendering (what
  \<^verbatim>\<open>String(n)\<close> gives); an object is the list of its own properties.
\<close>

datatype json_value =
    JNull
  | JBool bool
  | JNum string
  | JStr string
  | JArr "json_value list"
  | JObj "(string \<times> json_value) list"

datatype jsval = Undefined | Val json_value

abbreviation null :: jsval where
  "null \<equiv> Val JNull"

datatype js_error = JsError (name: string) (message: string)

text \<open>
  Reading the property \<^verbatim>\<open>k\<close> of a parsed JSON value, for the three keys the code reads
  (\<^verbatim>\<open>user\<close>, \<^verbatim>\<open>token\<close>, \<^verbatim>\<open>message\<close>): \<^verbatim>\<open>null.k\<close> throws a TypeError, an object yields its
  property or \<^verbatim>\<open>undefined\<close>, every other value yields \<^verbatim>\<open>undefined\<close>.
\<close>

fun get_prop :: "json_value \<Rightarrow> string \<Rightarrow> js_error + jsval" where
  "get_prop JNull k =
     Inl (JsError ''TypeError'' (''Cannot read properties of null (reading '' @ [CHR 0x27] @ k @ [CHR 0x27] @ '')''))"
| "get_prop (JObj kvs) k = Inr (case map_of kvs k of None \<Rightarrow> Undefined | Some v \<Rightarrow> Val v)"
| "get_prop _ k = Inr Undefined"

text \<open>
  The abstract operation ToString on these values (\<^verbatim>\<open>String(v)\<close>, a template literal, the
  argument of \<^verbatim>\<open>setItem\<close> and of \<^verbatim>\<open>new Error\<close>). It can throw. An object is converted by its
  \<^verbatim>\<open>toString\<close> method: a parsed object with no own property \<^verbatim>\<open>toString\<close> inherits the one
  that yields \<^verbatim>\<open>[object Object]\<close>; with an own property of that name, which is never a
  function in parsed JSON, no method yields a primitive and a TypeError is thrown. An array
  is converted by \<^verbatim>\<open>join\<close>: \<^verbatim>\<open>null\<close> elements give the empty string, the other elements are
  converted in order, and the first conversion that throws ends the whole.
\<close>

fun json_to_string :: "json_value \<Rightarrow> js_error + string"
  and array_join :: "json_value list \<Rightarrow> js_error + string" where
  "json_to_string JNull = Inr ''null''"
| "json_to_string (JBool b) = Inr (if b then ''true'' else ''false'')"
| "json_to_string (JNum r) = Inr r"
| "json_to_string (JStr s) = Inr s"
| "json_to_string (JArr xs) = array_join xs"
| "json_to_string (JObj kvs) =
     (if map_of kvs ''toString'' = None then Inr ''[object Object]''
      else Inl (JsError ''TypeError'' ''Cannot convert object to primitive value''))"
| "array_join [] = Inr []"
| "array_join (x # xs) =
     (case (if x = JNull then Inr [] else json_to_string x) of
        Inl e \<Rightarrow> Inl e
      | Inr a \<Rightarrow>
          if xs = [] then Inr a
          else (case array_join xs of Inl e \<Rightarrow> Inl e | Inr b \<Rightarrow> Inr (a @ '','' @ b)))"

fun to_string :: "jsval \<Rightarrow> js_error + string" where
  "to_string Undefined = Inr ''undefined''"
| "to_string (Val v) = json_to_string v"

text \<open>
  \<^verbatim>\<open>new Error(m)\<close>: the message is the empty string of the prototype when \<^verbatim>\<open>m\<close> is
  \<^verbatim>\<open>undefined\<close>, and ToString of \<^verbatim>\<open>m\<close> otherwise; \<open>Inl\<close> when that conversion throws, \<open>Inr\<close>
  the error object constructed.
\<close>

definition new_Error :: "jsval \<Rightarrow> js_error + js_error" where
  "new_Error m =
     (case m of
        Undefined \<Rightarrow> Inr (JsError ''Error'' [])
      | Val v \<Rightarrow> (case json_to_string v of Inl e \<Rightarrow> Inl e | Inr text \<Rightarrow> Inr (JsError ''Error'' text)))"

subsection \<open>Requests, responses and the backend\<close>

record request =
  "method" :: string
  url :: string
  headers :: "(string \<times> string) list"
  body :: "json_value option"

text \<open>
  The field \<open>body\<close> is the value whose \<^verbatim>\<open>JSON.stringify\<close> text is sent, \<open>None\<close> when the
  request has no body. Of a response the code reads \<^verbatim>\<open>res.ok\<close> and \<^verbatim>\<open>res.json()\<close>; the
  latter rejects when the body is not JSON.
\<close>

record response =
  status :: nat
  json :: "js_error + json_value"

definition ok :: "response \<Rightarrow> bool" where
  "ok res = (200 \<le> status res \<and> status res \<le> 299)"

type_synonym backend = "request \<Rightarrow> js_error + response"

text \<open>
  \<^verbatim>\<open>const BACKEND_URL = import.meta.env.VITE_BACKEND_URL || 'http://localhost:3000'\<close>, as a
  function of the setting (\<open>None\<close> when it is not set; the empty string is falsy).
\<close>

definition BACKEND_URL :: "string option \<Rightarrow> string" where
  "BACKEND_URL env =
     (case env of None \<Rightarrow> ''http://localhost:3000''
      | Some v \<Rightarrow> if v = [] then ''http://localhost:3000'' else v)"

subsection \<open>The state and its effects\<close>

datatype log_arg = LStr string | LErr js_error

datatype event =
    Fetch request
  | SetItem string string
  | RemoveItem string
  | SetUser jsval
  | Navigate string
  | ConsoleError "log_arg list"

record state =
  user :: jsval
  localStorage :: "string \<rightharpoonup> string"
  trace :: "event list"

definition emit :: "event \<Rightarrow> state \<Rightarrow> state" where
  "emit e s = s\<lparr>trace := trace s @ [e]\<rparr>"

definition setUser :: "jsval \<Rightarrow> state \<Rightarrow> state" where
  "setUser v s = emit (SetUser v) (s\<lparr>user := v\<rparr>)"

definition getItem :: "string \<Rightarrow> state \<Rightarrow> string option" where
  "getItem k s = localStorage s k"

text \<open>\<^verbatim>\<open>setItem\<close> with a value that is a string already (the conversion is the caller's).\<close>

definition setItem :: "string \<Rightarrow> string \<Rightarrow> state \<Rightarrow> state" where
  "setItem k v s = emit (SetItem k v) (s\<lparr>localStorage := (localStorage s)(k \<mapsto> v)\<rparr>)"

definition removeItem :: "string \<Rightarrow> state \<Rightarrow> state" where
  "removeItem k s = emit (RemoveItem k) (s\<lparr>localStorage := (localStorage s)(k := None)\<rparr>)"

definition navigate :: "string \<Rightarrow> state \<Rightarrow> state" where
  "navigate p s = emit (Navigate p) s"

definition console_error :: "log_arg list \<Rightarrow> state \<Rightarrow> state" where
  "console_error args s = emit (ConsoleError args) s"

text \<open>\<^verbatim>\<open>const [user, setUser] = useState(null)\<close>, over the storage found at start.\<close>

definition init_state :: "(string \<rightharpoonup> string) \<Rightarrow> state" where
  "init_state ls = \<lparr>user = null, localStorage = ls, trace = []\<rparr>"

subsection \<open>fetchUserData\<close>

text \<open>The request of \<open>fetchUserData\<close>, for the text that the template literal gave.\<close>

definition user_me_request :: "string option \<Rightarrow> string \<Rightarrow> request" where
  "user_me_request env t =
     \<lparr>method = ''GET'', url = BACKEND_URL env @ ''/user/me'',
      headers = [(''Authorization'', ''Bearer '' @ t)], body = None\<rparr>"

text \<open>
  The \<^verbatim>\<open>try\<close> block of \<^verbatim>\<open>fetchUserData\<close>: \<open>Inl\<close> is what it throws. The template literal is
  evaluated before \<^verbatim>\<open>fetch\<close> is called: when it throws, no request is made.
\<close>

definition fetchUserData_try :: "string option \<Rightarrow> backend \<Rightarrow> jsval \<Rightarrow> state \<Rightarrow> (js_error + unit) \<times> state" where
  "fetchUserData_try env be token s =
     (case to_string token of
        Inl e \<Rightarrow> (Inl e, s)
      | Inr t \<Rightarrow>
          (let req = user_me_request env t; s1 = emit (Fetch req) s in
           case be req of
             Inl e \<Rightarrow> (Inl e, s1)
           | Inr res \<Rightarrow>
               if \<not> ok res then (Inl (JsError ''Error'' ''Failed to fetch user data.''), s1)
               else (case json res of
                   Inl e \<Rightarrow> (Inl e, s1)
                 | Inr data \<Rightarrow>
                     (case get_prop data ''user'' of
                       Inl e \<Rightarrow> (Inl e, s1)
                     | Inr u \<Rightarrow> (Inr (), setUser u s1)))))"

text \<open>
  The whole function: the \<^verbatim>\<open>catch\<close> block logs the error, resets \<^verbatim>\<open>user\<close> and throws the
  error again.
\<close>

definition fetchUserData :: "string option \<Rightarrow> backend \<Rightarrow> jsval \<Rightarrow> state \<Rightarrow> (js_error + unit) \<times> state" where
  "fetchUserData env be token s =
     (case fetchUserData_try env be token s of
        (Inl error, s1) \<Rightarrow> (Inl error, setUser null (console_error [LErr error] s1))
      | (Inr u, s1) \<Rightarrow> (Inr u, s1))"

subsection \<open>The effect run on mount\<close>

text \<open>
  The immediately invoked \<^verbatim>\<open>async\<close> function of the effect; its result is the settlement of
  its promise, \<open>Inl\<close> a rejection that nothing handles.
\<close>

definition mount_async :: "string option \<Rightarrow> backend \<Rightarrow> string \<Rightarrow> state \<Rightarrow> (js_error + unit) \<times> state" where
  "mount_async env be token s =
     (case fetchUserData env be (Val (JStr token)) s of
        (Inl error, s1) \<Rightarrow>
          (Inr (), console_error [LStr ''Error fetching user data on mount:'', LErr error] s1)
      | (Inr u, s1) \<Rightarrow> (Inr (), s1))"

text \<open>
  The callback of \<^verbatim>\<open>useEffect\<close>. \<^verbatim>\<open>if (token)\<close> is a truthiness test: \<^verbatim>\<open>null\<close> (no item) and
  the empty string both take the \<^verbatim>\<open>else\<close> branch.
\<close>

definition useEffect_mount :: "string option \<Rightarrow> backend \<Rightarrow> state \<Rightarrow> state" where
  "useEffect_mount env be s =
     (case getItem ''token'' s of
        None \<Rightarrow> setUser null s
      | Some token \<Rightarrow>
          if token \<noteq> [] then snd (mount_async env be token s)
          else setUser null s)"

subsection \<open>logout, login, register\<close>

definition logout :: "state \<Rightarrow> state" where
  "logout s = navigate ''/'' (setUser null (removeItem ''token'' s))"

definition login_request :: "string option \<Rightarrow> string \<Rightarrow> string \<Rightarrow> request" where
  "login_request env username password =
     \<lparr>method = ''POST'', url = BACKEND_URL env @ ''/login'',
      headers = [(''Content-Type'', ''application/json'')],
      body = Some (JObj [(''username'', JStr username), (''password'', JStr password)])\<rparr>"

text \<open>
  The \<^verbatim>\<open>try\<close> block of \<^verbatim>\<open>login\<close>. \<^verbatim>\<open>new Error(errorData.message)\<close> and
  \<^verbatim>\<open>localStorage.setItem('token', data.token)\<close> convert their argument to a string; when the
  conversion throws, the error is thrown in place of the statement's effect.
\<close>

definition login_try :: "string option \<Rightarrow> backend \<Rightarrow> string \<Rightarrow> string \<Rightarrow> state \<Rightarrow> (js_error + unit) \<times> state" where
  "login_try env be username password s =
     (let req = login_request env username password; s1 = emit (Fetch req) s in
      case be req of
        Inl e \<Rightarrow> (Inl e, s1)
      | Inr res \<Rightarrow>
          if \<not> ok res then
            (case json res of
              Inl e \<Rightarrow> (Inl e, s1)
            | Inr errorData \<Rightarrow>
                (case get_prop errorData ''message'' of
                  Inl e \<Rightarrow> (Inl e, s1)
                | Inr m \<Rightarrow>
                    (case new_Error m of
                      Inl e \<Rightarrow> (Inl e, s1)
                    | Inr error \<Rightarrow> (Inl error, s1))))
          else
            (case json res of
              Inl e \<Rightarrow> (Inl e, s1)
            | Inr data \<Rightarrow>
                (case get_prop data ''token'' of
                  Inl e \<Rightarrow> (Inl e, s1)
                | Inr token \<Rightarrow>
                    (case to_string token of
                      Inl e \<Rightarrow> (Inl e, s1)
                    | Inr t \<Rightarrow>
                        (case fetchUserData env be token (setItem ''token'' t s1) of
                          (Inl e, s3) \<Rightarrow> (Inl e, s3)
                        | (Inr u, s3) \<Rightarrow> (Inr (), navigate ''/profile'' s3))))))"

text \<open>
  The value \<^verbatim>\<open>login\<close> resolves to: \<open>Some\<close> of the message returned by the \<^verbatim>\<open>catch\<close> block,
  \<open>None\<close> for \<^verbatim>\<open>undefined\<close> when the \<^verbatim>\<open>try\<close> block runs to its end.
\<close>

definition login :: "string option \<Rightarrow> backend \<Rightarrow> string \<Rightarrow> string \<Rightarrow> state \<Rightarrow> string option \<times> state" where
  "login env be username password s =
     (case login_try env be username password s of
        (Inl error, s1) \<Rightarrow> (Some (message error), s1)
      | (Inr u, s1) \<Rightarrow> (None, s1))"

text \<open>
  \<open>register\<close>, for registration data that \<^verbatim>\<open>JSON.stringify\<close> turns into a text (a JSON
  value).
\<close>

definition register_request :: "string option \<Rightarrow> json_value \<Rightarrow> request" where
  "register_request env userData =
     \<lparr>method = ''POST'', url = BACKEND_URL env @ ''/register'',
      headers = [(''Content-Type'', ''application/json'')],
      body = Some userData\<rparr>"

definition register_try :: "string option \<Rightarrow> backend \<Rightarrow> json_value \<Rightarrow> state \<Rightarrow> (js_error + unit) \<times> state" where
  "register_try env be userData s =
     (let req = register_request env userData; s1 = emit (Fetch req) s in
      case be req of
        Inl e \<Rightarrow> (Inl e, s1)
      | Inr res \<Rightarrow>
          if \<not> ok res then
            (case json res of
              Inl e \<Rightarrow> (Inl e, s1)
            | Inr errorData \<Rightarrow>
                (case get_prop errorData ''message'' of
                  Inl e \<Rightarrow> (Inl e, s1)
                | Inr m \<Rightarrow>
                    (case new_Error m of
                      Inl e \<Rightarrow> (Inl e, s1)
                    | Inr error \<Rightarrow> (Inl error, s1))))
          else (Inr (), navigate ''/success'' s1))"

definition register :: "string option \<Rightarrow> backend \<Rightarrow> json_value \<Rightarrow> state \<Rightarrow> string option \<times> state" where
  "register env be userData s =
     (case register_try env be userData s of
        (Inl error, s1) \<Rightarrow> (Some (message error), s1)
      | (Inr u, s1) \<Rightarrow> (None, s1))"

subsection \<open>Observations\<close>

text \<open>The targets of the \<^verbatim>\<open>navigate\<close> calls of a trace, in order.\<close>

fun navigations :: "event list \<Rightarrow> string list" where
  "navigations [] = []"
| "navigations (Navigate p # es) = p # navigations es"
| "navigations (e # es) = navigations es"


subsection \<open>The functions in pieces: suspension at \<^verbatim>\<open>await\<close>\<close>

text \<open>
  An \<^verbatim>\<open>async\<close> function runs until its first \<^verbatim>\<open>await\<close> inside the call, and from one \<^verbatim>\<open>await\<close>
  to the next each time it is resumed. A task is a suspended call: what it waits for and
  what it needs to go on. \<open>fetchUserData\<close> is awaited by its caller, so its task names the
  caller, the effect on mount or \<open>login\<close>.
\<close>

datatype caller = ByMount | ByLogin

datatype task =
    LoginFetch request
  | LoginErrorJson response
  | LoginJson response
  | UserFetch caller request
  | UserJson caller response
  | UserSettled caller "js_error + unit"
  | RegisterFetch request
  | RegisterErrorJson response

text \<open>
  \<open>LoginFetch\<close>, \<open>UserFetch\<close> and \<open>RegisterFetch\<close> wait for \<^verbatim>\<open>fetch\<close>; \<open>LoginErrorJson\<close>,
  \<open>LoginJson\<close>, \<open>UserJson\<close> and \<open>RegisterErrorJson\<close> wait for \<^verbatim>\<open>res.json()\<close> of the response
  they hold (the first and the last of a response that is not \<^verbatim>\<open>ok\<close>); \<open>UserSettled\<close> is the
  caller of \<open>fetchUserData\<close> waiting to go on after the promise of \<open>fetchUserData\<close> has
  settled.
\<close>

fun awaited_request :: "task \<Rightarrow> request option" where
  "awaited_request (LoginFetch req) = Some req"
| "awaited_request (UserFetch c req) = Some req"
| "awaited_request (RegisterFetch req) = Some req"
| "awaited_request t = None"

text \<open>The \<^verbatim>\<open>catch\<close> block of \<open>fetchUserData\<close>, before it throws the error again.\<close>

definition fetchUserData_catch :: "js_error \<Rightarrow> state \<Rightarrow> state" where
  "fetchUserData_catch error s = setUser null (console_error [LErr error] s)"

text \<open>The call of \<open>fetchUserData\<close>, up to \<^verbatim>\<open>await fetch(...)\<close>.\<close>

definition fetchUserData_call :: "string option \<Rightarrow> caller \<Rightarrow> jsval \<Rightarrow> state \<Rightarrow> task \<times> state" where
  "fetchUserData_call env c token s =
     (case to_string token of
        Inl e \<Rightarrow> (UserSettled c (Inl e), fetchUserData_catch e s)
      | Inr t \<Rightarrow> (UserFetch c (user_me_request env t), emit (Fetch (user_me_request env t)) s))"

text \<open>
  A task that waits for \<^verbatim>\<open>fetch\<close> goes on with the outcome of \<^verbatim>\<open>fetch\<close>, up to its next
  \<^verbatim>\<open>await\<close> or to its end (\<open>None\<close>).
\<close>

fun fetch_settled :: "task \<Rightarrow> js_error + response \<Rightarrow> state \<Rightarrow> task option \<times> state" where
  "fetch_settled (LoginFetch req) (Inl e) s = (None, s)"
| "fetch_settled (LoginFetch req) (Inr res) s =
     (if \<not> ok res then (Some (LoginErrorJson res), s) else (Some (LoginJson res), s))"
| "fetch_settled (UserFetch c req) (Inl e) s =
     (Some (UserSettled c (Inl e)), fetchUserData_catch e s)"
| "fetch_settled (UserFetch c req) (Inr res) s =
     (if \<not> ok res
      then (Some (UserSettled c (Inl (JsError ''Error'' ''Failed to fetch user data.''))),
            fetchUserData_catch (JsError ''Error'' ''Failed to fetch user data.'') s)
      else (Some (UserJson c res), s))"
| "fetch_settled (RegisterFetch req) (Inl e) s = (None, s)"
| "fetch_settled (RegisterFetch req) (Inr res) s =
     (if \<not> ok res then (Some (RegisterErrorJson res), s)
      else (None, navigate ''/success'' s))"
| "fetch_settled t r s = (Some t, s)"

text \<open>
  The caller of \<open>fetchUserData\<close>, after its \<^verbatim>\<open>await fetchUserData(...)\<close>: the effect on mount
  logs a rejection; \<open>login\<close> navigates, or returns the message of a rejection.
\<close>

fun after_fetchUserData :: "caller \<Rightarrow> js_error + unit \<Rightarrow> state \<Rightarrow> state" where
  "after_fetchUserData ByMount (Inl error) s =
     console_error [LStr ''Error fetching user data on mount:'', LErr error] s"
| "after_fetchUserData ByMount (Inr u) s = s"
| "after_fetchUserData ByLogin (Inl error) s = s"
| "after_fetchUserData ByLogin (Inr u) s = navigate ''/profile'' s"

text \<open>
  A task that waits for \<^verbatim>\<open>res.json()\<close>, or for the promise of \<open>fetchUserData\<close>, goes on. The
  values that \<open>login\<close> and \<open>register\<close> return are no part of the state and are left out.
\<close>

fun resumed :: "string option \<Rightarrow> task \<Rightarrow> state \<Rightarrow> task option \<times> state" where
  "resumed env (LoginErrorJson res) s = (None, s)"
| "resumed env (LoginJson res) s =
     (case json res of
        Inl e \<Rightarrow> (None, s)
      | Inr data \<Rightarrow>
          (case get_prop data ''token'' of
            Inl e \<Rightarrow> (None, s)
          | Inr token \<Rightarrow>
              (case to_string token of
                Inl e \<Rightarrow> (None, s)
              | Inr t \<Rightarrow>
                  (case fetchUserData_call env ByLogin token (setItem ''token'' t s) of
                    (task, s1) \<Rightarrow> (Some task, s1)))))"
| "resumed env (UserJson c res) s =
     (case json res of
        Inl e \<Rightarrow> (Some (UserSettled c (Inl e)), fetchUserData_catch e s)
      | Inr data \<Rightarrow>
          (case get_prop data ''user'' of
            Inl e \<Rightarrow> (Some (UserSettled c (Inl e)), fetchUserData_catch e s)
          | Inr u \<Rightarrow> (Some (UserSettled c (Inr ())), setUser u s)))"
| "resumed env (UserSettled c r) s = (None, after_fetchUserData c r s)"
| "resumed env (RegisterErrorJson res) s = (None, s)"
| "resumed env t s = (Some t, s)"

subsection \<open>Executions\<close>

text \<open>
  A configuration is the state and the suspended calls. A step is one of: the effect on
  mount runs; the application calls \<open>login\<close>, \<open>logout\<close> or \<open>register\<close>; the \<^verbatim>\<open>fetch\<close> of the
  \<open>i\<close>-th suspended call settles, the backend answering its request as \<open>be\<close> does; the
  \<open>i\<close>-th suspended call is resumed after another \<^verbatim>\<open>await\<close>. A step that does not apply (no
  such task, or a task waiting for something else) changes nothing. An execution is any
  list of steps: nothing orders the continuations of different calls.
\<close>

record conf =
  st :: state
  pending :: "task list"

datatype action =
    Mount
  | CallLogin string string
  | CallLogout
  | CallRegister json_value
  | FetchSettles nat backend
  | Resumes nat

fun replace_task :: "nat \<Rightarrow> task option \<Rightarrow> task list \<Rightarrow> task list" where
  "replace_task i None ts = take i ts @ drop (Suc i) ts"
| "replace_task i (Some t) ts = ts[i := t]"

fun step :: "string option \<Rightarrow> conf \<Rightarrow> action \<Rightarrow> conf" where
  "step env c Mount =
     (case getItem ''token'' (st c) of
        None \<Rightarrow> c\<lparr>st := setUser null (st c)\<rparr>
      | Some token \<Rightarrow>
          if token \<noteq> [] then
            (case fetchUserData_call env ByMount (Val (JStr token)) (st c) of
              (task, s1) \<Rightarrow> \<lparr>st = s1, pending = pending c @ [task]\<rparr>)
          else c\<lparr>st := setUser null (st c)\<rparr>)"
| "step env c (CallLogin username password) =
     \<lparr>st = emit (Fetch (login_request env username password)) (st c),
      pending = pending c @ [LoginFetch (login_request env username password)]\<rparr>"
| "step env c CallLogout = c\<lparr>st := logout (st c)\<rparr>"
| "step env c (CallRegister userData) =
     \<lparr>st = emit (Fetch (register_request env userData)) (st c),
      pending = pending c @ [RegisterFetch (register_request env userData)]\<rparr>"
| "step env c (FetchSettles i be) =
     (if i < length (pending c) then
        (case awaited_request (pending c ! i) of
          None \<Rightarrow> c
        | Some req \<Rightarrow>
            (case fetch_settled (pending c ! i) (be req) (st c) of
              (t, s1) \<Rightarrow> \<lparr>st = s1, pending = replace_task i t (pending c)\<rparr>))
      else c)"
| "step env c (Resumes i) =
     (if i < length (pending c) then
        (case resumed env (pending c ! i) (st c) of
          (t, s1) \<Rightarrow> \<lparr>st = s1, pending = replace_task i t (pending c)\<rparr>)
      else c)"

definition exec :: "string option \<Rightarrow> conf \<Rightarrow> action list \<Rightarrow> conf" where
  "exec env c acts = foldl (step env) c acts"

definition init_conf :: "(string \<rightharpoonup> string) \<Rightarrow> conf" where
  "init_conf ls = \<lparr>st = init_state ls, pending = []\<rparr>"

subsection \<open>Executions without overlap\<close>







subsection \<open>Invariants of an execution\<close>



subsection \<open>Two backends for concrete runs\<close>

text \<open>
  A backend that knows the user \<^verbatim>\<open>ann\<close> with password \<^verbatim>\<open>right\<close>, issues the token \<^verbatim>\<open>tok1\<close>
  to her and resolves that token to her record; it answers 401 to everything else it
  routes.
\<close>

definition ann_backend :: "string \<Rightarrow> backend" where
  "ann_backend burl req =
     (if method req = ''POST'' \<and> url req = burl @ ''/login'' then
        (if body req = Some (JObj [(''username'', JStr ''ann''), (''password'', JStr ''right'')])
         then Inr \<lparr>status = 200, json = Inr (JObj [(''token'', JStr ''tok1'')])\<rparr>
         else Inr \<lparr>status = 401, json = Inr (JObj [(''message'', JStr ''invalid credentials'')])\<rparr>)
      else if method req = ''GET'' \<and> url req = burl @ ''/user/me'' then
        (if headers req = [(''Authorization'', ''Bearer tok1'')]
         then Inr \<lparr>status = 200,
                  json = Inr (JObj [(''user'', JObj [(''id'', JNum ''1''), (''name'', JStr ''Ann'')])])\<rparr>
         else Inr \<lparr>status = 401, json = Inr (JObj [(''message'', JStr ''Unauthorized'')])\<rparr>)
      else if method req = ''POST'' \<and> url req = burl @ ''/register'' then
        (if body req = Some (JObj [(''username'', JStr ''ann'')])
         then Inr \<lparr>status = 409, json = Inr (JObj [(''message'', JStr ''user exists'')])\<rparr>
         else Inr \<lparr>status = 201, json = Inr (JObj [])\<rparr>)
      else Inl (JsError ''TypeError'' ''Failed to fetch''))"


text \<open>
  A backend whose \<^verbatim>\<open>/login\<close> issues, as the token, an object with an own property
  \<^verbatim>\<open>toString\<close>, and that answers every other request with success.
\<close>

definition object_token_backend :: "string \<Rightarrow> backend" where
  "object_token_backend burl req =
     (if method req = ''POST'' \<and> url req = burl @ ''/login''
      then Inr \<lparr>status = 200, json = Inr (JObj [(''token'', JObj [(''toString'', JNum ''1'')])])\<rparr>
      else Inr \<lparr>status = 200, json = Inr (JObj [(''user'', JObj [(''id'', JNum ''1'')])])\<rparr>)"

section \<open>Properties\<close>

lemmas effect_defs =
  emit_def setUser_def getItem_def setItem_def removeItem_def navigate_def console_error_def

lemmas request_defs =
  login_request_def user_me_request_def register_request_def BACKEND_URL_def

lemma navigations_append: "navigations (es @ fs) = navigations es @ navigations fs"
  by (induction es rule: navigations.induct) simp_all

text \<open>When \<open>login\<close> and \<open>register\<close> return \<^verbatim>\<open>undefined\<close>, in terms of what the backend answers.\<close>

lemma login_undefined_iff:
  "(fst (login env be username password s) = None) =
     (\<exists>res data token t res2 data2 u.
        be (login_request env username password) = Inr res \<and> ok res
        \<and> json res = Inr data \<and> get_prop data ''token'' = Inr token
        \<and> to_string token = Inr t
        \<and> be (user_me_request env t) = Inr res2 \<and> ok res2
        \<and> json res2 = Inr data2 \<and> get_prop data2 ''user'' = Inr u)"
  by (simp add: login_def login_try_def fetchUserData_def fetchUserData_try_def Let_def
      split: sum.splits prod.splits)

lemma register_undefined_iff:
  "(fst (register env be userData s) = None) =
     (\<exists>res. be (register_request env userData) = Inr res \<and> ok res)"
  by (simp add: register_def register_try_def Let_def split: sum.splits prod.splits)

lemma login_navigations:
  "navigations (trace (snd (login env be username password s))) =
       navigations (trace s) @ (if fst (login env be username password s) = None
                                then [''/profile''] else [])"
  by (simp add: login_def login_try_def fetchUserData_def fetchUserData_try_def Let_def
      effect_defs navigations_append split: sum.splits prod.splits)

lemma register_navigations:
  "navigations (trace (snd (register env be userData s))) =
       navigations (trace s) @ (if fst (register env be userData s) = None
                                then [''/success''] else [])"
  by (simp add: register_def register_try_def Let_def effect_defs navigations_append
      split: sum.splits prod.splits)

subsection \<open>logout\<close>

text \<open>
  C7. From any state, \<open>logout\<close> removes the stored token, sets \<open>user\<close> to \<^verbatim>\<open>null\<close> and
  navigates to \<^verbatim>\<open>/\<close>. The effects it performs are exactly these three, in this order: none
  of them is a call of \<^verbatim>\<open>fetch\<close>. It is a total function of the state with no error
  result: the body has no \<^verbatim>\<open>throw\<close> and awaits nothing.
\<close>

theorem logout_clears_session:
  "localStorage (logout s) ''token'' = None
   \<and> user (logout s) = null
   \<and> trace (logout s) = trace s @ [RemoveItem ''token'', SetUser null, Navigate ''/'']
   \<and> (\<nexists>req. Fetch req \<in> set (drop (length (trace s)) (trace (logout s))))"
  by (simp add: logout_def navigate_def setUser_def removeItem_def emit_def)

text \<open>
  C8. A second \<open>logout\<close> leaves \<open>user\<close> and the storage as the first one left them:
  \<open>user\<close> is \<^verbatim>\<open>null\<close> and no token is stored. (The trace grows by the three effects of the
  second call.)
\<close>

theorem logout_idempotent:
  "user (logout (logout s)) = user (logout s)
   \<and> localStorage (logout (logout s)) = localStorage (logout s)
   \<and> user (logout (logout s)) = null
   \<and> localStorage (logout (logout s)) ''token'' = None"
  by (simp add: logout_def navigate_def setUser_def removeItem_def emit_def)

subsection \<open>fetchUserData\<close>

text \<open>
  C4. When \<open>fetchUserData\<close> fails, the state it hands to its caller together with the
  error has \<open>user\<close> equal to \<^verbatim>\<open>null\<close>, whatever \<open>user\<close> was before; the storage is as it
  was, and the effects of the call are the request (when the token could be put into the
  header), the logging of the error and \<^verbatim>\<open>setUser(null)\<close>, the reset being the last effect
  before the error is thrown again. The call fails whenever the request is rejected or the
  response is not a success (and when no request can be made).
\<close>

theorem fetchUserData_failure_resets_user:
  "(fst (fetchUserData env be token s) = Inl e \<longrightarrow>
      user (snd (fetchUserData env be token s)) = null
      \<and> localStorage (snd (fetchUserData env be token s)) = localStorage s
      \<and> trace (snd (fetchUserData env be token s)) =
          trace s
          @ (case to_string token of Inl e' \<Rightarrow> [] | Inr t \<Rightarrow> [Fetch (user_me_request env t)])
          @ [ConsoleError [LErr e], SetUser null])
   \<and> ((case to_string token of
         Inl e' \<Rightarrow> True
       | Inr t \<Rightarrow> (case be (user_me_request env t) of Inl err \<Rightarrow> True | Inr res \<Rightarrow> \<not> ok res)) \<longrightarrow>
      (\<exists>e'. fst (fetchUserData env be token s) = Inl e'))"
  by (auto simp: fetchUserData_def fetchUserData_try_def Let_def effect_defs
      split: sum.splits)

theorem fetchUserData_failure_resets_user_witness:
  "to_string (Val (JStr ''stale'')) = Inr ''stale''
   \<and> (case ann_backend ''http://localhost:3000'' (user_me_request None ''stale'') of
      Inl err \<Rightarrow> True | Inr res \<Rightarrow> \<not> ok res)
   \<and> fst (fetchUserData None (ann_backend ''http://localhost:3000'') (Val (JStr ''stale''))
         \<lparr>user = Val (JObj [(''id'', JNum ''1'')]), localStorage = [''token'' \<mapsto> ''stale''], trace = []\<rparr>)
     = Inl (JsError ''Error'' ''Failed to fetch user data.'')
   \<and> user (snd (fetchUserData None (ann_backend ''http://localhost:3000'') (Val (JStr ''stale''))
         \<lparr>user = Val (JObj [(''id'', JNum ''1'')]), localStorage = [''token'' \<mapsto> ''stale''], trace = []\<rparr>))
     = null
   \<and> trace (snd (fetchUserData None (ann_backend ''http://localhost:3000'') (Val (JStr ''stale''))
         \<lparr>user = Val (JObj [(''id'', JNum ''1'')]), localStorage = [''token'' \<mapsto> ''stale''], trace = []\<rparr>))
     = [Fetch (user_me_request None ''stale''),
        ConsoleError [LErr (JsError ''Error'' ''Failed to fetch user data.'')], SetUser null]"
proof -
  let ?be = "ann_backend ''http://localhost:3000''"
  let ?s = "\<lparr>user = Val (JObj [(''id'', JNum ''1'')]), localStorage = [''token'' \<mapsto> ''stale''], trace = []\<rparr>"
  have rejected: "case ?be (user_me_request None ''stale'') of
      Inl err \<Rightarrow> True | Inr res \<Rightarrow> \<not> ok res"
    by (simp add: request_defs ann_backend_def ok_def)
  have failed: "fst (fetchUserData None ?be (Val (JStr ''stale'')) ?s)
      = Inl (JsError ''Error'' ''Failed to fetch user data.'')"
    by (simp add: fetchUserData_def fetchUserData_try_def Let_def effect_defs request_defs
        ann_backend_def ok_def)
  from fetchUserData_failure_resets_user
    [of None ?be "Val (JStr ''stale'')" ?s "JsError ''Error'' ''Failed to fetch user data.''"]
    rejected failed
  show ?thesis by simp
qed

subsection \<open>login\<close>

text \<open>
  C2. When the backend answers \<^verbatim>\<open>/login\<close> with a status outside 200..299 and a JSON object
  whose \<^verbatim>\<open>message\<close> is the string \<open>m\<close>, \<open>login\<close> returns \<open>m\<close> (it resolves, it does not
  reject), \<open>user\<close> and the storage are as before (so \<open>user\<close> remains \<^verbatim>\<open>null\<close> when it was),
  and the only effect is the request: nothing navigates.
\<close>

theorem login_rejected_returns_message:
  assumes "be (login_request env username password) = Inr res"
    and "\<not> ok res"
    and "json res = Inr (JObj kvs)"
    and "map_of kvs ''message'' = Some (JStr m)"
  shows "fst (login env be username password s) = Some m
    \<and> user (snd (login env be username password s)) = user s
    \<and> localStorage (snd (login env be username password s)) = localStorage s
    \<and> trace (snd (login env be username password s)) =
        trace s @ [Fetch (login_request env username password)]
    \<and> navigations (trace (snd (login env be username password s))) = navigations (trace s)"
  using assms
  by (simp add: login_def login_try_def Let_def effect_defs new_Error_def navigations_append)

theorem login_rejected_returns_message_witness:
  "fst (login None (ann_backend ''http://localhost:3000'') ''ann'' ''wrong'' (init_state Map.empty))
     = Some ''invalid credentials''
   \<and> user (snd (login None (ann_backend ''http://localhost:3000'') ''ann'' ''wrong'' (init_state Map.empty)))
     = null
   \<and> navigations (trace (snd (login None (ann_backend ''http://localhost:3000'') ''ann'' ''wrong''
        (init_state Map.empty)))) = []"
  using login_rejected_returns_message
    [of "ann_backend ''http://localhost:3000''" None "''ann''" "''wrong''"
        "\<lparr>status = 401, json = Inr (JObj [(''message'', JStr ''invalid credentials'')])\<rparr>"
        "[(''message'', JStr ''invalid credentials'')]" "''invalid credentials''"
        "init_state Map.empty"]
  by (simp add: ann_backend_def request_defs ok_def init_state_def)

text \<open>
  C3. When \<^verbatim>\<open>/login\<close> answers with success and an object whose \<^verbatim>\<open>token\<close> is the string \<open>t\<close>,
  and \<^verbatim>\<open>/user/me\<close>, asked with \<open>t\<close>, answers with success and an object whose \<^verbatim>\<open>user\<close> is
  \<open>u\<close>, then after \<open>login\<close> the storage holds exactly \<open>t\<close> under \<^verbatim>\<open>token\<close>, \<open>user\<close> is \<open>u\<close>,
  and the one navigation of the call goes to \<^verbatim>\<open>/profile\<close>.
\<close>

theorem login_success_establishes_session:
  assumes "be (login_request env username password) = Inr res"
    and "ok res"
    and "json res = Inr (JObj kvs)"
    and "map_of kvs ''token'' = Some (JStr t)"
    and "be (user_me_request env t) = Inr res2"
    and "ok res2"
    and "json res2 = Inr (JObj kvs2)"
    and "map_of kvs2 ''user'' = Some u"
  shows "localStorage (snd (login env be username password s)) ''token'' = Some t
    \<and> user (snd (login env be username password s)) = Val u
    \<and> navigations (trace (snd (login env be username password s))) =
        navigations (trace s) @ [''/profile'']"
  using assms
  by (simp add: login_def login_try_def fetchUserData_def fetchUserData_try_def Let_def
      effect_defs navigations_append)

theorem login_success_establishes_session_witness:
  "localStorage (snd (login None (ann_backend ''http://localhost:3000'') ''ann'' ''right''
       (init_state Map.empty))) ''token'' = Some ''tok1''
   \<and> user (snd (login None (ann_backend ''http://localhost:3000'') ''ann'' ''right''
       (init_state Map.empty))) = Val (JObj [(''id'', JNum ''1''), (''name'', JStr ''Ann'')])
   \<and> navigations (trace (snd (login None (ann_backend ''http://localhost:3000'') ''ann'' ''right''
       (init_state Map.empty)))) = [''/profile'']"
  using login_success_establishes_session
    [of "ann_backend ''http://localhost:3000''" None "''ann''" "''right''"
        "\<lparr>status = 200, json = Inr (JObj [(''token'', JStr ''tok1'')])\<rparr>"
        "[(''token'', JStr ''tok1'')]" "''tok1''"
        "\<lparr>status = 200,
          json = Inr (JObj [(''user'', JObj [(''id'', JNum ''1''), (''name'', JStr ''Ann'')])])\<rparr>"
        "[(''user'', JObj [(''id'', JNum ''1''), (''name'', JStr ''Ann'')])]"
        "JObj [(''id'', JNum ''1''), (''name'', JStr ''Ann'')]"
        "init_state Map.empty"]
  by (simp add: ann_backend_def request_defs ok_def init_state_def)

text \<open>
  C6. Whenever \<open>login\<close> returns \<^verbatim>\<open>undefined\<close> (the \<^verbatim>\<open>try\<close> block ran to its end), the effects
  of the call are, in this order: the request to \<^verbatim>\<open>/login\<close>, the write of the token to the
  storage, the request resolving that token, \<^verbatim>\<open>setUser\<close>, the navigation to \<^verbatim>\<open>/profile\<close>. So
  the token is written before \<open>user\<close> is set, and it is still in the storage at the end.
\<close>

theorem login_success_order:
  assumes "fst (login env be username password s) = None"
  shows "\<exists>t u.
      trace (snd (login env be username password s)) =
        trace s @ [Fetch (login_request env username password),
                   SetItem ''token'' t,
                   Fetch (user_me_request env t),
                   SetUser u,
                   Navigate ''/profile'']
      \<and> localStorage (snd (login env be username password s)) ''token'' = Some t
      \<and> user (snd (login env be username password s)) = u"
proof -
  from assms obtain res data token t res2 data2 u where
    "be (login_request env username password) = Inr res" "ok res"
    "json res = Inr data" "get_prop data ''token'' = Inr token" "to_string token = Inr t"
    "be (user_me_request env t) = Inr res2" "ok res2"
    "json res2 = Inr data2" "get_prop data2 ''user'' = Inr u"
    unfolding login_undefined_iff by blast
  then show ?thesis
    by (simp add: login_def login_try_def fetchUserData_def fetchUserData_try_def Let_def
        effect_defs)
qed

theorem login_success_order_witness:
  "fst (login None (ann_backend ''http://localhost:3000'') ''ann'' ''right'' (init_state Map.empty))
     = None
   \<and> (\<exists>t u. trace (snd (login None (ann_backend ''http://localhost:3000'') ''ann'' ''right''
        (init_state Map.empty))) =
        [Fetch (login_request None ''ann'' ''right''),
         SetItem ''token'' t,
         Fetch (user_me_request None t),
         SetUser u,
         Navigate ''/profile''])"
proof -
  have succeeded: "fst (login None (ann_backend ''http://localhost:3000'') ''ann'' ''right''
      (init_state Map.empty)) = None"
    by (simp add: login_def login_try_def fetchUserData_def fetchUserData_try_def Let_def
        effect_defs request_defs ann_backend_def ok_def init_state_def)
  from login_success_order [OF succeeded] succeeded show ?thesis
    by (auto simp: init_state_def)
qed

subsection \<open>register\<close>

text \<open>
  C9. \<open>register\<close> leaves \<open>user\<close> and the storage as they were, whether it returns
  \<^verbatim>\<open>undefined\<close> or a message. Its effects are the request and, when it returns \<^verbatim>\<open>undefined\<close>,
  the navigation to \<^verbatim>\<open>/success\<close>; nothing else.
\<close>

theorem register_leaves_session:
  "user (snd (register env be userData s)) = user s
   \<and> localStorage (snd (register env be userData s)) = localStorage s
   \<and> trace (snd (register env be userData s)) =
       trace s @ (if fst (register env be userData s) = None
                  then [Fetch (register_request env userData), Navigate ''/success'']
                  else [Fetch (register_request env userData)])"
  by (auto simp: register_def register_try_def Let_def effect_defs
      split: sum.splits prod.splits if_splits)

subsection \<open>The effect run on mount\<close>

text \<open>
  C5, as the claim states it, fails for an empty stored token: the item is in the storage,
  \<^verbatim>\<open>getItem\<close> returns the empty string, \<^verbatim>\<open>if (token)\<close> takes the \<^verbatim>\<open>else\<close> branch, and the only
  effect of the mount is \<^verbatim>\<open>setUser(null)\<close>: no resolution is attempted.
\<close>

theorem mount_empty_token_counterexample:
  "getItem ''token'' (init_state [''token'' \<mapsto> []]) = Some []
   \<and> trace (useEffect_mount None (ann_backend ''http://localhost:3000'')
        (init_state [''token'' \<mapsto> []])) = [SetUser null]"
  by (simp add: useEffect_mount_def init_state_def effect_defs)

text \<open>
  C5, amended. When no token is stored, the mount sets \<open>user\<close> to \<^verbatim>\<open>null\<close> and does nothing
  else. When a token other than the empty string is stored, the first effect of the mount
  is the request resolving it, the promise of the asynchronous function settles without a
  rejection, and when the resolution fails with \<open>e\<close> the error is logged (by
  \<open>fetchUserData\<close> and by the mount) and \<open>user\<close> is \<^verbatim>\<open>null\<close>. When the empty string is stored,
  the mount does what it does without a token.
\<close>

theorem mount_initialises:
  "(localStorage s ''token'' = None \<longrightarrow>
      user (useEffect_mount env be s) = null
      \<and> trace (useEffect_mount env be s) = trace s @ [SetUser null])
   \<and> (localStorage s ''token'' = Some t \<and> t \<noteq> [] \<longrightarrow>
      fst (mount_async env be t s) = Inr ()
      \<and> (\<exists>es. trace (useEffect_mount env be s) =
            trace s @ Fetch (user_me_request env t) # es)
      \<and> (fst (fetchUserData env be (Val (JStr t)) s) = Inl e \<longrightarrow>
           user (useEffect_mount env be s) = null
           \<and> trace (useEffect_mount env be s) =
               trace s @ [Fetch (user_me_request env t),
                          ConsoleError [LErr e], SetUser null,
                          ConsoleError [LStr ''Error fetching user data on mount:'', LErr e]]))
   \<and> (localStorage s ''token'' = Some [] \<longrightarrow>
      user (useEffect_mount env be s) = null
      \<and> trace (useEffect_mount env be s) = trace s @ [SetUser null])"
  by (auto simp: useEffect_mount_def mount_async_def fetchUserData_def fetchUserData_try_def
      Let_def effect_defs split: sum.splits prod.splits if_splits)

theorem mount_initialises_witness:
  "localStorage (init_state Map.empty) ''token'' = None
   \<and> user (useEffect_mount None (ann_backend ''http://localhost:3000'') (init_state Map.empty)) = null
   \<and> localStorage (init_state [''token'' \<mapsto> ''stale'']) ''token'' = Some ''stale''
   \<and> fst (fetchUserData None (ann_backend ''http://localhost:3000'') (Val (JStr ''stale''))
        (init_state [''token'' \<mapsto> ''stale''])) = Inl (JsError ''Error'' ''Failed to fetch user data.'')
   \<and> fst (mount_async None (ann_backend ''http://localhost:3000'') ''stale''
        (init_state [''token'' \<mapsto> ''stale''])) = Inr ()
   \<and> user (useEffect_mount None (ann_backend ''http://localhost:3000'')
        (init_state [''token'' \<mapsto> ''stale''])) = null
   \<and> trace (useEffect_mount None (ann_backend ''http://localhost:3000'')
        (init_state [''token'' \<mapsto> ''stale''])) =
        [Fetch (user_me_request None ''stale''),
         ConsoleError [LErr (JsError ''Error'' ''Failed to fetch user data.'')],
         SetUser null,
         ConsoleError [LStr ''Error fetching user data on mount:'',
                       LErr (JsError ''Error'' ''Failed to fetch user data.'')]]
   \<and> localStorage (init_state [''token'' \<mapsto> []]) ''token'' = Some []
   \<and> user (useEffect_mount None (ann_backend ''http://localhost:3000'')
        (init_state [''token'' \<mapsto> []])) = null"
proof -
  let ?be = "ann_backend ''http://localhost:3000''"
  let ?e = "JsError ''Error'' ''Failed to fetch user data.''"
  have absent: "localStorage (init_state Map.empty) ''token'' = None"
    and stale: "localStorage (init_state [''token'' \<mapsto> ''stale'']) ''token'' = Some ''stale''"
    and empty: "localStorage (init_state [''token'' \<mapsto> []]) ''token'' = Some []"
    by (simp_all add: init_state_def)
  have failed: "fst (fetchUserData None ?be (Val (JStr ''stale''))
      (init_state [''token'' \<mapsto> ''stale''])) = Inl ?e"
    by (simp add: fetchUserData_def fetchUserData_try_def Let_def effect_defs request_defs
        ann_backend_def ok_def)
  from mount_initialises [of "init_state Map.empty" None ?be "''x''" ?e]
    mount_initialises [of "init_state [''token'' \<mapsto> ''stale'']" None ?be "''stale''" ?e]
    mount_initialises [of "init_state [''token'' \<mapsto> []]" None ?be "''x''" ?e]
    absent stale empty failed
  show ?thesis by (simp add: init_state_def)
qed

subsection \<open>The returned value\<close>

text \<open>
  C10. Every value thrown inside the two \<^verbatim>\<open>try\<close> blocks is an error object with a string
  message, and the \<^verbatim>\<open>catch\<close> blocks return that message: \<open>login\<close> and \<open>register\<close> return
  \<^verbatim>\<open>undefined\<close> (\<open>None\<close>) or a string (\<open>Some\<close>). \<open>login\<close> returns \<^verbatim>\<open>undefined\<close> exactly when
  every step succeeded: \<^verbatim>\<open>/login\<close> answered with success and a body that parses and from
  which \<^verbatim>\<open>token\<close> can be read, the token could be converted to a string for the storage, and
  \<^verbatim>\<open>/user/me\<close>, asked with that string, answered with success and a body that parses and
  from which \<^verbatim>\<open>user\<close> can be read. \<open>register\<close> returns \<^verbatim>\<open>undefined\<close> exactly when
  \<^verbatim>\<open>/register\<close> answered with success. The returned value tells the success path apart: the
  call has navigated (to \<^verbatim>\<open>/profile\<close>, to \<^verbatim>\<open>/success\<close>) when it returns \<^verbatim>\<open>undefined\<close>, and
  has not navigated when it returns a string.
\<close>

theorem undefined_iff_every_step_succeeded:
  "(fst (login env be username password s) = None) =
     (\<exists>res data token t res2 data2 u.
        be (login_request env username password) = Inr res \<and> ok res
        \<and> json res = Inr data \<and> get_prop data ''token'' = Inr token
        \<and> to_string token = Inr t
        \<and> be (user_me_request env t) = Inr res2 \<and> ok res2
        \<and> json res2 = Inr data2 \<and> get_prop data2 ''user'' = Inr u)
   \<and> (fst (register env be userData s) = None) =
     (\<exists>res. be (register_request env userData) = Inr res \<and> ok res)
   \<and> navigations (trace (snd (login env be username password s))) =
       navigations (trace s) @ (if fst (login env be username password s) = None
                                then [''/profile''] else [])
   \<and> navigations (trace (snd (register env be userData s))) =
       navigations (trace s) @ (if fst (register env be userData s) = None
                                then [''/success''] else [])"
  using login_undefined_iff [of env be username password s]
    register_undefined_iff [of env be userData s]
    login_navigations [of env be username password s]
    register_navigations [of env be userData s]
  by blast

text \<open>
  The theorem at a token that cannot be converted: \<^verbatim>\<open>/login\<close> answers with success and the
  token \<^verbatim>\<open>{"toString": 1}\<close>, every later request would succeed, and \<open>login\<close> returns the
  message of the TypeError that \<^verbatim>\<open>setItem\<close> throws; nothing is stored and nothing navigates.
\<close>

theorem undefined_iff_every_step_succeeded_witness:
  "to_string (Val (JObj [(''toString'', JNum ''1'')]))
     = Inl (JsError ''TypeError'' ''Cannot convert object to primitive value'')
   \<and> fst (login None (object_token_backend ''http://localhost:3000'') ''ann'' ''right''
        (init_state Map.empty)) \<noteq> None
   \<and> fst (login None (object_token_backend ''http://localhost:3000'') ''ann'' ''right''
        (init_state Map.empty)) = Some ''Cannot convert object to primitive value''
   \<and> localStorage (snd (login None (object_token_backend ''http://localhost:3000'') ''ann'' ''right''
        (init_state Map.empty))) ''token'' = None
   \<and> navigations (trace (snd (login None (object_token_backend ''http://localhost:3000'')
        ''ann'' ''right'' (init_state Map.empty)))) = []"
proof -
  let ?be = "object_token_backend ''http://localhost:3000''"
  let ?s = "init_state Map.empty"
  have answer: "?be (login_request None ''ann'' ''right'')
      = Inr \<lparr>status = 200, json = Inr (JObj [(''token'', JObj [(''toString'', JNum ''1'')])])\<rparr>"
    by (simp add: object_token_backend_def request_defs)
  have thrown: "to_string (Val (JObj [(''toString'', JNum ''1'')]))
      = Inl (JsError ''TypeError'' ''Cannot convert object to primitive value'')"
    by simp
  have returned: "fst (login None ?be ''ann'' ''right'' ?s)
      = Some ''Cannot convert object to primitive value''"
    and stored: "localStorage (snd (login None ?be ''ann'' ''right'' ?s)) ''token'' = None"
    by (simp_all add: login_def login_try_def Let_def answer ok_def effect_defs init_state_def)
  from undefined_iff_every_step_succeeded
    [of None ?be "''ann''" "''right''" ?s "JNull"]
    returned
  have "navigations (trace (snd (login None ?be ''ann'' ''right'' ?s))) = navigations (trace ?s)"
    by simp
  with thrown returned stored show ?thesis
    by (simp add: init_state_def)
qed

subsection \<open>The functions taken whole and in pieces agree\<close>

lemmas piece_defs =
  fetchUserData_call_def fetchUserData_catch_def












subsection \<open>The stored token and the user over an execution\<close>


text \<open>Every step of an execution, in terms of the trace and of the stored token.\<close>

lemma fetchUserData_call_effect:
  "localStorage (snd (fetchUserData_call env c token s)) = localStorage s
   \<and> (case to_string token of
        Inl e \<Rightarrow> trace (snd (fetchUserData_call env c token s)) =
                  trace s @ [ConsoleError [LErr e], SetUser null]
      | Inr t \<Rightarrow> trace (snd (fetchUserData_call env c token s)) =
                  trace s @ [Fetch (user_me_request env t)])"
  by (simp add: fetchUserData_call_def fetchUserData_catch_def effect_defs split: sum.splits)




















text \<open>
  Calls that overlap break the tie between \<open>user\<close> and the stored token. The mount finds
  the token \<^verbatim>\<open>tok1\<close> and requests its resolution; \<open>logout\<close> is called while the request is
  under way; then the response arrives and \<open>fetchUserData\<close> sets \<open>user\<close>. The execution
  rests with Ann's record in \<open>user\<close> and no token in the storage.
\<close>

lemma logout_during_resolution:
  "localStorage (st (exec None (init_conf [''token'' \<mapsto> ''tok1''])
      [Mount, CallLogout, FetchSettles 0 (ann_backend ''http://localhost:3000''),
       Resumes 0, Resumes 0])) ''token'' = None
   \<and> user (st (exec None (init_conf [''token'' \<mapsto> ''tok1''])
      [Mount, CallLogout, FetchSettles 0 (ann_backend ''http://localhost:3000''),
       Resumes 0, Resumes 0])) = Val (JObj [(''id'', JNum ''1''), (''name'', JStr ''Ann'')])
   \<and> pending (exec None (init_conf [''token'' \<mapsto> ''tok1''])
      [Mount, CallLogout, FetchSettles 0 (ann_backend ''http://localhost:3000''),
       Resumes 0, Resumes 0]) = []"
  by (simp add: exec_def init_conf_def init_state_def piece_defs logout_def effect_defs
      request_defs ann_backend_def ok_def)



end
